theory Spec2Isabelle
  imports Complex_Main "HOL-Library.Word" "HOL-Library.Monad_Syntax" "HOL-Library.Log_Nat"
begin

section \<open>The Eventhub source (sources/spark/eventhub.py)\<close>

text \<open>
  \<open>SparkEventhubSource\<close> keeps a Spark session and an options dictionary. Of the session
  the two read methods use three things: the JVM utility \<open>EventHubsUtils.encrypt\<close>, reached
  through \<open>spark.sparkContext._jvm\<close>, and the two readers \<open>spark.read\<close> and
  \<open>spark.readStream\<close>, each followed by \<open>.format("eventhubs").options(**options).load()\<close>.
  All three are external calls that either return or raise, so each is a function into a
  sum type with the raised exception on the left. The exception value stands for the
  Python exception object (its type and its message).

  Two things are assumed of the handler \<open>except Exception as e\<close> throughout: an exception
  value is one that the handler catches (an instance of \<open>Exception\<close>), and the two library
  calls of the handler, \<open>print(e)\<close> and \<open>logging.exception(...)\<close>, return.
\<close>

datatype reader = Read | ReadStream

record ('v, 'e, 'd) SparkSession =
  encrypt :: "'v \<Rightarrow> 'e + 'v"
  load :: "reader \<Rightarrow> (string \<rightharpoonup> 'v) \<Rightarrow> 'e + 'd"

text \<open>
  What a read method does besides returning: the external calls it makes, with their
  arguments, and the two logging calls of the exception handler, in the order they happen.
\<close>

datatype ('v, 'e) effect =
    EncryptCall 'v
  | LoadCall reader "string \<rightharpoonup> 'v"
  | Print 'e
  | LoggingException string

record ('v, 'e, 'd) SparkEventhubSource =
  spark :: "('v, 'e, 'd) SparkSession"
  options :: "string \<rightharpoonup> 'v"

definition init :: "('v, 'e, 'd) SparkSession \<Rightarrow> (string \<rightharpoonup> 'v) \<Rightarrow> ('v, 'e, 'd) SparkEventhubSource" where
  "init spark' options' = \<lparr>spark = spark', options = options'\<rparr>"

text \<open>
  A read method returns the dataframe or raises; it may have assigned to
  \<open>self.options[...]\<close> before, so the object comes back as well, and the effects with it.
\<close>

type_synonym ('v, 'e, 'd) outcome =
  "('e + 'd) \<times> ('v, 'e, 'd) SparkEventhubSource \<times> ('v, 'e) effect list"

abbreviation result :: "('v, 'e, 'd) outcome \<Rightarrow> 'e + 'd" where
  "result out \<equiv> fst out"

abbreviation object_after :: "('v, 'e, 'd) outcome \<Rightarrow> ('v, 'e, 'd) SparkEventhubSource" where
  "object_after out \<equiv> fst (snd out)"

abbreviation effects :: "('v, 'e, 'd) outcome \<Rightarrow> ('v, 'e) effect list" where
  "effects out \<equiv> snd (snd out)"

definition eventhub_connection_string :: string where
  "eventhub_connection_string = ''eventhubs.connectionString''"

definition read_batch :: "('v, 'e, 'd) SparkEventhubSource \<Rightarrow> ('v, 'e, 'd) outcome" where
  "read_batch self =
     (case options self eventhub_connection_string of
        Some v \<Rightarrow>
          (case encrypt (spark self) v of
             Inl e \<Rightarrow>
               (Inl e, self,
                [EncryptCall v, Print e,
                 LoggingException ''error with spark read batch eventhub function''])
           | Inr c \<Rightarrow>
               (let self' = self\<lparr>options := (options self)(eventhub_connection_string \<mapsto> c)\<rparr> in
                case load (spark self') Read (options self') of
                  Inl e \<Rightarrow>
                    (Inl e, self',
                     [EncryptCall v, LoadCall Read (options self'), Print e,
                      LoggingException ''error with spark read batch eventhub function''])
                | Inr df \<Rightarrow> (Inr df, self', [EncryptCall v, LoadCall Read (options self')])))
      | None \<Rightarrow>
          (case load (spark self) Read (options self) of
             Inl e \<Rightarrow>
               (Inl e, self,
                [LoadCall Read (options self), Print e,
                 LoggingException ''error with spark read batch eventhub function''])
           | Inr df \<Rightarrow> (Inr df, self, [LoadCall Read (options self)])))"

definition read_stream :: "('v, 'e, 'd) SparkEventhubSource \<Rightarrow> ('v, 'e, 'd) outcome" where
  "read_stream self =
     (case options self eventhub_connection_string of
        Some v \<Rightarrow>
          (case encrypt (spark self) v of
             Inl e \<Rightarrow>
               (Inl e, self,
                [EncryptCall v, Print e,
                 LoggingException ''error with spark read stream eventhub function''])
           | Inr c \<Rightarrow>
               (let self' = self\<lparr>options := (options self)(eventhub_connection_string \<mapsto> c)\<rparr> in
                case load (spark self') ReadStream (options self') of
                  Inl e \<Rightarrow>
                    (Inl e, self',
                     [EncryptCall v, LoadCall ReadStream (options self'), Print e,
                      LoggingException ''error with spark read stream eventhub function''])
                | Inr df \<Rightarrow>
                    (Inr df, self', [EncryptCall v, LoadCall ReadStream (options self')])))
      | None \<Rightarrow>
          (case load (spark self) ReadStream (options self) of
             Inl e \<Rightarrow>
               (Inl e, self,
                [LoadCall ReadStream (options self), Print e,
                 LoggingException ''error with spark read stream eventhub function''])
           | Inr df \<Rightarrow> (Inr df, self, [LoadCall ReadStream (options self)])))"

text \<open>
  The two read methods differ in the reader they use; \<open>call\<close> picks the method for a
  reader, and \<open>calls\<close> is a caller that invokes read methods one after the other on the same
  object, going on whether a call returned or raised.
\<close>

definition call :: "reader \<Rightarrow> ('v, 'e, 'd) SparkEventhubSource \<Rightarrow> ('v, 'e, 'd) outcome" where
  "call r = (case r of Read \<Rightarrow> read_batch | ReadStream \<Rightarrow> read_stream)"

fun calls :: "reader list \<Rightarrow> ('v, 'e, 'd) SparkEventhubSource \<Rightarrow> ('v, 'e, 'd) SparkEventhubSource" where
  "calls [] self = self"
| "calls (r # rs) self = calls rs (object_after (call r self))"

definition log_text :: "reader \<Rightarrow> string" where
  "log_text r =
     (case r of
        Read \<Rightarrow> ''error with spark read batch eventhub function''
      | ReadStream \<Rightarrow> ''error with spark read stream eventhub function'')"

definition is_LoadCall :: "('v, 'e) effect \<Rightarrow> bool" where
  "is_LoadCall x = (case x of LoadCall r opts \<Rightarrow> True | _ \<Rightarrow> False)"

definition is_EncryptCall :: "('v, 'e) effect \<Rightarrow> bool" where
  "is_EncryptCall x = (case x of EncryptCall v \<Rightarrow> True | _ \<Rightarrow> False)"

subsection \<open>The contract of the read methods, as the specification words it\<close>

text \<open>
  The specification describes \<open>read_batch\<close> in three steps and \<open>read_stream\<close> as the same
  with the other load request. The three steps, written down on their own: the encryption
  pre-step (if the configuration contains the connection-string key, its value is replaced
  by the encrypted form obtained from the external utility), the load request built from
  the full configuration mapping, and the failure handling (log the error, raise it again
  unchanged).
\<close>

definition encryption_pre_step ::
  "('v, 'e, 'd) SparkEventhubSource \<Rightarrow>
   ('e + unit) \<times> ('v, 'e, 'd) SparkEventhubSource \<times> ('v, 'e) effect list" where
  "encryption_pre_step self =
     (if eventhub_connection_string \<in> dom (options self)
      then let v = the (options self eventhub_connection_string) in
           (case encrypt (spark self) v of
              Inl e \<Rightarrow> (Inl e, self, [EncryptCall v])
            | Inr c \<Rightarrow>
                (Inr (), self\<lparr>options := (options self)(eventhub_connection_string \<mapsto> c)\<rparr>,
                 [EncryptCall v]))
      else (Inr (), self, []))"

definition log_and_reraise :: "string \<Rightarrow> ('v, 'e, 'd) outcome \<Rightarrow> ('v, 'e, 'd) outcome" where
  "log_and_reraise msg out =
     (case out of
        (Inl e, self, tr) \<Rightarrow> (Inl e, self, tr @ [Print e, LoggingException msg])
      | (Inr df, self, tr) \<Rightarrow> (Inr df, self, tr))"

definition read_contract ::
  "reader \<Rightarrow> string \<Rightarrow> ('v, 'e, 'd) SparkEventhubSource \<Rightarrow> ('v, 'e, 'd) outcome" where
  "read_contract r msg self =
     log_and_reraise msg
       (case encryption_pre_step self of
          (Inl e, self', tr) \<Rightarrow> (Inl e, self', tr)
        | (Inr u, self', tr) \<Rightarrow>
            (load (spark self') r (options self'), self', tr @ [LoadCall r (options self')]))"

subsection \<open>A session and two sources to run the read methods on\<close>

text \<open>
  Connection strings and exceptions are strings here and a dataframe is a number. The
  utility puts its argument in brackets; the load raises when the options name no consumer
  group.
\<close>

definition demo_session :: "(string, string, nat) SparkSession" where
  "demo_session =
     \<lparr>encrypt = (\<lambda>v. Inr (''<'' @ v @ ''>'')),
      load = (\<lambda>r opts. if opts ''eventhubs.consumerGroup'' = None
                         then Inl ''no consumer group'' else Inr 7)\<rparr>"

definition demo_options :: "string \<rightharpoonup> string" where
  "demo_options =
     [''eventhubs.connectionString'' \<mapsto> ''Endpoint=sb://demo'',
      ''eventhubs.consumerGroup'' \<mapsto> ''$Default'']"

definition demo_source :: "(string, string, nat) SparkEventhubSource" where
  "demo_source = init demo_session demo_options"

definition bare_source :: "(string, string, nat) SparkEventhubSource" where
  "bare_source = init demo_session Map.empty"

text \<open>
  A source with the connection string and nothing else in its options, so that its load
  raises; and a source like \<open>demo_source\<close> in a session whose utility raises.
\<close>

definition keyed_source :: "(string, string, nat) SparkEventhubSource" where
  "keyed_source = init demo_session [''eventhubs.connectionString'' \<mapsto> ''Endpoint=sb://demo'']"

definition failing_session :: "(string, string, nat) SparkSession" where
  "failing_session = demo_session\<lparr>encrypt := (\<lambda>v. Inl ''encryption failed'')\<rparr>"

definition failing_source :: "(string, string, nat) SparkEventhubSource" where
  "failing_source = init failing_session demo_options"

section \<open>The Auto Loader source (sources/spark/autoloader.py)\<close>

text \<open>
  Modelled from the spec: \<open>DataBricksAutoLoaderSource\<close>, whose module is not among the
  sources at hand; only its test is. The test builds the source from a session, an options
  dictionary, a path and a format, and the specification says that the one-shot read of an
  adapter that only supports continuous reads raises an operation-not-supported failure
  with the documented message.
\<close>

datatype py_exception = NotImplementedError string

definition str :: "py_exception \<Rightarrow> string" where
  "str e = (case e of NotImplementedError msg \<Rightarrow> msg)"

record ('s, 'v) DataBricksAutoLoaderSource =
  al_spark :: 's
  al_options :: "string \<rightharpoonup> 'v"
  al_path :: string
  al_format :: string

text \<open>
  Modelled from the spec: \<open>DataBricksAutoLoaderSource.read_batch\<close>, the one-shot read that the
  adapter does not support.
\<close>

definition autoloader_read_batch :: "('s, 'v) DataBricksAutoLoaderSource \<Rightarrow> py_exception + 'd" where
  "autoloader_read_batch self =
     Inl (NotImplementedError
       ''Auto Loader only supports streaming reads. To perform a batch read, use the read_stream method and specify Trigger on the write_stream as `availableNow=True`'')"

section \<open>Dataframes, as far as the EdgeX transformer uses them\<close>

text \<open>
  The transformer is a chain of Spark dataframe operations. A dataframe is its list of
  column names and its rows, a row holding one cell per column. A cell is \<open>Null\<close>, a string,
  a 64-bit integer, a double, a timestamp (an instant, in microseconds since the epoch, as
  Spark stores it), a boolean, a struct of named fields or an array.

  A double is carried as the rational number it denotes; \<open>to_double\<close> rounds a rational to
  the nearest double.
\<close>

datatype cell =
    Null
  | Str string
  | Long "64 word"
  | Double rat
  | Timestamp int
  | Boolean bool
  | Struct "(string \<times> cell) list"
  | Array "cell list"

record dataframe =
  columns :: "string list"
  rows :: "cell list list"

subsection \<open>Double arithmetic\<close>

text \<open>
  IEEE 754 binary64, round to nearest, ties to even, for numbers in the normal range: a
  double is \<open>m * 2 ^ e\<close> with a 53-bit \<open>m\<close>. The numbers the transformer divides and
  multiplies are quotients and products of a 64-bit integer and a power of ten below
  \<open>2 ^ 63\<close>, all of them zero or in the normal range.
\<close>

definition pow2 :: "int \<Rightarrow> rat" where
  "pow2 e = (if 0 \<le> e then 2 ^ nat e else 1 / 2 ^ nat (- e))"

definition floor_log2 :: "rat \<Rightarrow> int" where
  "floor_log2 x = (if 1 \<le> x then bitlen \<lfloor>x\<rfloor> - 1 else - bitlen (\<lceil>1 / x\<rceil> - 1))"

definition round_half_even :: "rat \<Rightarrow> int" where
  "round_half_even x =
     (let f = \<lfloor>x\<rfloor>; d = x - of_int f
      in if d < 1 / 2 then f else if 1 / 2 < d then f + 1 else if even f then f else f + 1)"

definition to_double :: "rat \<Rightarrow> rat" where
  "to_double x =
     (if x = 0 then 0
      else let ulp = pow2 (floor_log2 \<bar>x\<bar> - 52)
           in sgn x * of_int (round_half_even (\<bar>x\<bar> / ulp)) * ulp)"

text \<open>The conversion of a double to a long: towards zero, saturating.\<close>

definition double_to_long :: "rat \<Rightarrow> int" where
  "double_to_long d =
     (let t = (if 0 \<le> d then \<lfloor>d\<rfloor> else \<lceil>d\<rceil>)
      in max (- (2 ^ 63)) (min (2 ^ 63 - 1) t))"

subsection \<open>What the Spark runtime supplies\<close>

text \<open>
  Modelled from the spec: \<open>EDGEX_SCHEMA\<close>, the schema that \<open>from_json\<close> parses the payload
  with; its module is not among the sources at hand. The payload has a device identifier
  and a list of readings, each reading an origin timestamp in nanoseconds since the epoch,
  a value and a value-type tag. Every field may be null, and so may a reading and the list.
\<close>

record reading =
  r_origin :: "64 word option"
  r_value :: cell
  r_valueType :: "string option"

record edgex =
  e_deviceName :: "string option"
  e_readings :: "reading option list option"

definition nullable :: "('a \<Rightarrow> cell) \<Rightarrow> 'a option \<Rightarrow> cell" where
  "nullable f x = (case x of None \<Rightarrow> Null | Some y \<Rightarrow> f y)"

definition reading_cell :: "reading \<Rightarrow> cell" where
  "reading_cell r =
     Struct [(''origin'', nullable Long (r_origin r)),
             (''value'', r_value r),
             (''valueType'', nullable Str (r_valueType r))]"

definition edgex_cell :: "edgex \<Rightarrow> cell" where
  "edgex_cell b =
     Struct [(''deviceName'', nullable Str (e_deviceName b)),
             (''readings'', nullable (\<lambda>rs. Array (map (nullable reading_cell) rs)) (e_readings b))]"

text \<open>
  The transformer runs in a Spark session. Of the session's configuration it reads the time
  zone (\<open>current_timezone()\<close>), and the analyzer reads whether column names are compared
  with or without regard to case (\<open>spark.sql.caseSensitive\<close>). The runtime also brings the
  JSON parser behind \<open>from_json\<close>, taken as it is: it maps the cell of the \<open>body\<close> column to
  the parsed payload, or to nothing (SQL NULL). And it brings the time zone database:
  \<open>zone_offset z t\<close> is the offset from UTC, in microseconds, that zone \<open>z\<close> has at the
  local date and time \<open>t\<close>.
\<close>

record runtime =
  timeZone :: string
  caseSensitive :: bool
  parse_edgex :: "cell \<Rightarrow> edgex option"
  zone_offset :: "string \<Rightarrow> int \<Rightarrow> int"

definition lower_char :: "char \<Rightarrow> char" where
  "lower_char c =
     (case map_of (zip ''ABCDEFGHIJKLMNOPQRSTUVWXYZ'' ''abcdefghijklmnopqrstuvwxyz'') c of
        Some l \<Rightarrow> l
      | None \<Rightarrow> c)"

definition resolver :: "runtime \<Rightarrow> string \<Rightarrow> string \<Rightarrow> bool" where
  "resolver rt a b = (if caseSensitive rt then a = b else map lower_char a = map lower_char b)"

subsection \<open>Column expressions\<close>

text \<open>
  The expressions the transformer builds, with \<open>col\<close>, \<open>lit\<close>, \<open>from_json\<close>, \<open>when\<close> and
  \<open>otherwise\<close> or as SQL text. \<open>Col c fs\<close> is the column \<open>c\<close>, or the field reached from it
  through the struct fields \<open>fs\<close> (\<open>body.deviceName\<close> is \<open>Col ''body'' [''deviceName'']\<close>).
  \<open>When c v e\<close> is \<open>when(c, v)\<close> followed by the rest of the chain \<open>e\<close>.
\<close>

datatype expr =
    Col string "string list"
  | Lit cell
  | FromJson expr
  | Divide expr expr
  | ToTimestamp expr
  | ToUtcTimestamp expr expr
  | CurrentTimezone
  | EqualTo expr expr
  | When expr expr expr

text \<open>
  The field of a struct; the field of a null struct is null. The structs of the
  transformer are those of \<open>EDGEX_SCHEMA\<close>, which have every field that it asks for.
\<close>

fun get_field :: "cell \<Rightarrow> string \<Rightarrow> cell" where
  "get_field (Struct fs) f = (case map_of fs f of Some v \<Rightarrow> v | None \<Rightarrow> Null)"
| "get_field c f = Null"

definition resolve :: "runtime \<Rightarrow> string \<Rightarrow> (string \<times> 'a) list \<Rightarrow> 'a option" where
  "resolve rt c named =
     (case filter (\<lambda>(n, v). resolver rt n c) named of [(n, v)] \<Rightarrow> Some v | _ \<Rightarrow> None)"

fun as_double :: "cell \<Rightarrow> rat option" where
  "as_double (Long w) = Some (to_double (of_int (sint w)))"
| "as_double (Double d) = Some d"
| "as_double c = None"

definition divide_cells :: "cell \<Rightarrow> cell \<Rightarrow> cell" where
  "divide_cells a b =
     (case (as_double a, as_double b) of
        (Some x, Some y) \<Rightarrow> if y = 0 then Null else Double (to_double (x / y))
      | _ \<Rightarrow> Null)"

text \<open>
  \<open>to_timestamp\<close> of a number is the cast to a timestamp: the double counts the seconds
  since the epoch, and the timestamp is the product with 1000000, cut to a long.
\<close>

fun to_timestamp :: "cell \<Rightarrow> cell" where
  "to_timestamp (Double d) = Timestamp (double_to_long (to_double (d * 1000000)))"
| "to_timestamp c = Null"

text \<open>
  \<open>to_utc_timestamp(ts, z)\<close> takes the date and time that the instant \<open>ts\<close> has in UTC, reads
  it as a local date and time of the zone \<open>z\<close>, and gives the instant at which the zone has
  it: the instant moves back by the offset of the zone. (Spark's documentation has the
  example of 02:40 and the zone GMT+1, which give 01:40.)
\<close>

fun to_utc_timestamp :: "runtime \<Rightarrow> cell \<Rightarrow> cell \<Rightarrow> cell" where
  "to_utc_timestamp rt (Timestamp t) (Str z) = Timestamp (t - zone_offset rt z t)"
| "to_utc_timestamp rt c z = Null"

fun equal_to :: "cell \<Rightarrow> cell \<Rightarrow> cell" where
  "equal_to (Str a) (Str b) = Boolean (a = b)"
| "equal_to a b = Null"

text \<open>
  The value of an expression on a row, the row given as its named cells. An operand of
  another type than the ones written out does not occur in the transformer's chain; the
  value is \<open>Null\<close> there. So is the value of a column that the analysis below rejects.
\<close>

fun eval :: "runtime \<Rightarrow> (string \<times> cell) list \<Rightarrow> expr \<Rightarrow> cell" where
  "eval rt row (Col c fs) =
     (case resolve rt c row of Some v \<Rightarrow> foldl get_field v fs | None \<Rightarrow> Null)"
| "eval rt row (Lit v) = v"
| "eval rt row (FromJson e) = nullable edgex_cell (parse_edgex rt (eval rt row e))"
| "eval rt row (Divide a b) = divide_cells (eval rt row a) (eval rt row b)"
| "eval rt row (ToTimestamp e) = to_timestamp (eval rt row e)"
| "eval rt row (ToUtcTimestamp e z) = to_utc_timestamp rt (eval rt row e) (eval rt row z)"
| "eval rt row CurrentTimezone = Str (timeZone rt)"
| "eval rt row (EqualTo a b) = equal_to (eval rt row a) (eval rt row b)"
| "eval rt row (When c v e) =
     (if eval rt row c = Boolean True then eval rt row v else eval rt row e)"

text \<open>
  The analysis of an expression against the columns of a dataframe: every column it names
  is the name of exactly one column. Spark raises \<open>AnalysisException\<close> otherwise, for a name
  that no column has and for one that several have.
\<close>

fun references :: "expr \<Rightarrow> string list" where
  "references (Col c fs) = [c]"
| "references (Lit v) = []"
| "references (FromJson e) = references e"
| "references (Divide a b) = references a @ references b"
| "references (ToTimestamp e) = references e"
| "references (ToUtcTimestamp e z) = references e @ references z"
| "references CurrentTimezone = []"
| "references (EqualTo a b) = references a @ references b"
| "references (When c v e) = references c @ references v @ references e"

definition resolvable :: "runtime \<Rightarrow> string list \<Rightarrow> expr \<Rightarrow> bool" where
  "resolvable rt cols e =
     list_all (\<lambda>c. length (filter (\<lambda>n. resolver rt n c) cols) = 1) (references e)"

subsection \<open>Dataframe operations\<close>

text \<open>
  \<open>withColumn\<close>, as \<open>Dataset.withColumn\<close> does it: every column that the new name resolves to
  is replaced by the new column, under the new name; when there is none, the new column is
  added at the end. \<open>None\<close> is the \<open>AnalysisException\<close>.
\<close>

definition withColumn :: "runtime \<Rightarrow> string \<Rightarrow> expr \<Rightarrow> dataframe \<Rightarrow> dataframe option" where
  "withColumn rt name e df =
     (let cols = columns df; hit = (\<lambda>c. resolver rt c name) in
      if \<not> resolvable rt cols e then None
      else if list_ex hit cols
      then Some \<lparr>columns = map (\<lambda>c. if hit c then name else c) cols,
                 rows = map (\<lambda>r. map (\<lambda>(c, x). if hit c then eval rt (zip cols r) e else x)
                                     (zip cols r)) (rows df)\<rparr>
      else Some \<lparr>columns = cols @ [name],
                 rows = map (\<lambda>r. r @ [eval rt (zip cols r) e]) (rows df)\<rparr>)"

text \<open>
  \<open>select\<close> takes a list of items: \<open>"*"\<close>, an expression with the name of its column, or
  \<open>explode\<close> of an array expression, whose column is called \<open>col\<close> and which gives one row
  for each element of the array and none for an empty or null array.
\<close>

datatype select_item = Star | As expr string | Explode expr

fun item_resolvable :: "runtime \<Rightarrow> string list \<Rightarrow> select_item \<Rightarrow> bool" where
  "item_resolvable rt cols Star = True"
| "item_resolvable rt cols (As e n) = resolvable rt cols e"
| "item_resolvable rt cols (Explode e) = resolvable rt cols e"

fun item_columns :: "string list \<Rightarrow> select_item \<Rightarrow> string list" where
  "item_columns cols Star = cols"
| "item_columns cols (As e n) = [n]"
| "item_columns cols (Explode e) = [''col'']"

fun item_cells :: "runtime \<Rightarrow> string list \<Rightarrow> cell list \<Rightarrow> select_item \<Rightarrow> cell list list" where
  "item_cells rt cols r Star = [r]"
| "item_cells rt cols r (As e n) = [[eval rt (zip cols r) e]]"
| "item_cells rt cols r (Explode e) =
     (case eval rt (zip cols r) e of Array xs \<Rightarrow> map (\<lambda>x. [x]) xs | _ \<Rightarrow> [])"

definition select :: "runtime \<Rightarrow> select_item list \<Rightarrow> dataframe \<Rightarrow> dataframe option" where
  "select rt items df =
     (let cols = columns df in
      if \<not> list_all (item_resolvable rt cols) items then None
      else Some \<lparr>columns = concat (map (item_columns cols) items),
                 rows = concat (map (\<lambda>r. map concat (product_lists (map (item_cells rt cols r) items)))
                                    (rows df))\<rparr>)"

section \<open>The EdgeX transformer (transformers/spark/edgex_json_to_pcdm.py)\<close>

record EdgeXJsonToPCDMTransformer =
  data :: dataframe
  status_null_value :: string
  change_type_value :: string

text \<open>
  The constructor; an argument that the caller leaves out is \<open>None\<close> here and takes its
  default.
\<close>

definition edgex_init :: "dataframe \<Rightarrow> string option \<Rightarrow> string option \<Rightarrow> EdgeXJsonToPCDMTransformer" where
  "edgex_init data' status_null_value' change_type_value' =
     \<lparr>data = data',
      status_null_value = (case status_null_value' of None \<Rightarrow> ''Good'' | Some s \<Rightarrow> s),
      change_type_value = (case change_type_value' of None \<Rightarrow> ''insert'' | Some s \<Rightarrow> s)\<rparr>"

definition pre_transform_validation :: "EdgeXJsonToPCDMTransformer \<Rightarrow> bool" where
  "pre_transform_validation self = True"

definition post_transform_validation :: "EdgeXJsonToPCDMTransformer \<Rightarrow> bool" where
  "post_transform_validation self = True"

text \<open>The chain of \<open>when\<close> calls on the \<open>ValueType\<close> column, closed by \<open>otherwise\<close>.\<close>

definition value_type_chain :: expr where
  "value_type_chain =
     When (EqualTo (Col ''ValueType'' []) (Lit (Str ''Int8''))) (Lit (Str ''integer''))
    (When (EqualTo (Col ''ValueType'' []) (Lit (Str ''Int16''))) (Lit (Str ''integer''))
    (When (EqualTo (Col ''ValueType'' []) (Lit (Str ''Int32''))) (Lit (Str ''integer''))
    (When (EqualTo (Col ''ValueType'' []) (Lit (Str ''Int64''))) (Lit (Str ''integer''))
    (When (EqualTo (Col ''ValueType'' []) (Lit (Str ''Uint8''))) (Lit (Str ''integer''))
    (When (EqualTo (Col ''ValueType'' []) (Lit (Str ''Uint16''))) (Lit (Str ''integer''))
    (When (EqualTo (Col ''ValueType'' []) (Lit (Str ''Uint32''))) (Lit (Str ''integer''))
    (When (EqualTo (Col ''ValueType'' []) (Lit (Str ''Uint64''))) (Lit (Str ''integer''))
    (When (EqualTo (Col ''ValueType'' []) (Lit (Str ''Float32''))) (Lit (Str ''float''))
    (When (EqualTo (Col ''ValueType'' []) (Lit (Str ''Float64''))) (Lit (Str ''float''))
    (When (EqualTo (Col ''ValueType'' []) (Lit (Str ''Bool''))) (Lit (Str ''bool''))
    (Lit (Str ''string''))))))))))))"

text \<open>
  The event time, in SQL
  \<open>to_utc_timestamp(to_timestamp((col.origin / 1000000000)), current_timezone())\<close>.
  The literal is an integer; the division works on doubles.
\<close>

definition event_time_expr :: expr where
  "event_time_expr =
     ToUtcTimestamp (ToTimestamp (Divide (Col ''col'' [''origin'']) (Lit (Long 1000000000))))
       CurrentTimezone"

definition transform :: "runtime \<Rightarrow> EdgeXJsonToPCDMTransformer \<Rightarrow> dataframe option" where
  "transform rt self =
     do {
       df \<leftarrow> withColumn rt ''body'' (FromJson (Col ''body'' [])) (data self);
       df \<leftarrow> select rt [Star, Explode (Col ''body'' [''readings''])] df;
       df \<leftarrow> select rt
              [As (Col ''body'' [''deviceName'']) ''TagName'',
               As event_time_expr ''EventTime'',
               As (Col ''col'' [''value'']) ''Value'',
               As (Col ''col'' [''valueType'']) ''ValueType''] df;
       df \<leftarrow> withColumn rt ''Status'' (Lit (Str (status_null_value self))) df;
       df \<leftarrow> withColumn rt ''ChangeType'' (Lit (Str (change_type_value self))) df;
       df \<leftarrow> withColumn rt ''ValueType'' value_type_chain df;
       select rt
         [As (Col ''TagName'' []) ''TagName'',
          As (Col ''EventTime'' []) ''EventTime'',
          As (Col ''Status'' []) ''Status'',
          As (Col ''Value'' []) ''Value'',
          As (Col ''ValueType'' []) ''ValueType'',
          As (Col ''ChangeType'' []) ''ChangeType''] df
     }"

subsection \<open>The result of the transformer, in closed form\<close>

text \<open>
  The analysis accepts the chain on the columns of the input when exactly one of them
  answers to the name \<open>body\<close> and none to the name \<open>col\<close>, the name that \<open>explode\<close> gives
  its column.
\<close>

definition accepts :: "runtime \<Rightarrow> string list \<Rightarrow> bool" where
  "accepts rt cols =
     (length (filter (\<lambda>c. resolver rt c ''body'') cols) = 1 \<and>
      filter (\<lambda>c. resolver rt c ''col'') cols = [])"

text \<open>A dataframe of Spark has one cell for each column in every row.\<close>

definition well_formed :: "dataframe \<Rightarrow> bool" where
  "well_formed df = list_all (\<lambda>r. length r = length (columns df)) (rows df)"

definition array_cells :: "cell \<Rightarrow> cell list" where
  "array_cells c = (case c of Array xs \<Rightarrow> xs | _ \<Rightarrow> [])"

text \<open>The dataframe after the first step, the parsing of \<open>body\<close>, and after the second, \<open>explode\<close>.\<close>

definition parsed_row :: "runtime \<Rightarrow> string list \<Rightarrow> cell list \<Rightarrow> cell list" where
  "parsed_row rt cols r =
     map (\<lambda>(c, x). if resolver rt c ''body''
                    then eval rt (zip cols r) (FromJson (Col ''body'' []))
                    else x)
         (zip cols r)"

definition parsed :: "runtime \<Rightarrow> dataframe \<Rightarrow> dataframe" where
  "parsed rt df =
     \<lparr>columns = map (\<lambda>c. if resolver rt c ''body'' then ''body'' else c) (columns df),
      rows = map (parsed_row rt (columns df)) (rows df)\<rparr>"

definition exploded :: "runtime \<Rightarrow> dataframe \<Rightarrow> dataframe" where
  "exploded rt df =
     \<lparr>columns = columns (parsed rt df) @ [''col''],
      rows = concat (map (\<lambda>r. map (\<lambda>x. r @ [x])
                                   (array_cells (eval rt (zip (columns (parsed rt df)) r)
                                      (Col ''body'' [''readings'']))))
                         (rows (parsed rt df)))\<rparr>"

text \<open>
  The lookup of the value type as the specification words it: the eight integer widths go
  to \<open>integer\<close>, the two float widths to \<open>float\<close>, the boolean tag to \<open>bool\<close>, and anything
  else, a null cell too, to \<open>string\<close>.
\<close>

definition canonical_value_type :: "cell \<Rightarrow> string" where
  "canonical_value_type c =
     (if c \<in> Str ` {''Int8'', ''Int16'', ''Int32'', ''Int64'', ''Uint8'', ''Uint16'', ''Uint32'', ''Uint64''}
      then ''integer''
      else if c \<in> Str ` {''Float32'', ''Float64''} then ''float''
      else if c = Str ''Bool'' then ''bool''
      else ''string'')"

text \<open>
  The output row made from a row \<open>r\<close> of the exploded dataframe by the projection and the
  steps after it; \<open>cols\<close> are the columns of the exploded dataframe.
\<close>

definition output_row :: "runtime \<Rightarrow> EdgeXJsonToPCDMTransformer \<Rightarrow> string list \<Rightarrow> cell list \<Rightarrow> cell list" where
  "output_row rt self cols r =
     [eval rt (zip cols r) (Col ''body'' [''deviceName'']),
      eval rt (zip cols r) event_time_expr,
      Str (status_null_value self),
      eval rt (zip cols r) (Col ''col'' [''value'']),
      Str (canonical_value_type (eval rt (zip cols r) (Col ''col'' [''valueType'']))),
      Str (change_type_value self)]"

text \<open>The event time of an exploded reading \<open>x\<close>, the value of \<open>event_time_expr\<close> on it.\<close>

definition event_time :: "runtime \<Rightarrow> cell \<Rightarrow> cell" where
  "event_time rt x =
     to_utc_timestamp rt
       (to_timestamp (divide_cells (get_field x ''origin'') (Long 1000000000)))
       (Str (timeZone rt))"

text \<open>
  The payload parsed from a row, its readings as the cells that \<open>explode\<close> hands on, and the
  output row of one reading and the output rows of one input row.
\<close>

definition payload :: "runtime \<Rightarrow> string list \<Rightarrow> cell list \<Rightarrow> edgex option" where
  "payload rt cols r = Option.bind (resolve rt ''body'' (zip cols r)) (parse_edgex rt)"

definition reading_cells :: "edgex \<Rightarrow> cell list" where
  "reading_cells b =
     (case e_readings b of None \<Rightarrow> [] | Some rs \<Rightarrow> map (nullable reading_cell) rs)"

definition pcdm_row :: "runtime \<Rightarrow> EdgeXJsonToPCDMTransformer \<Rightarrow> edgex \<Rightarrow> cell \<Rightarrow> cell list" where
  "pcdm_row rt self b x =
     [nullable Str (e_deviceName b),
      event_time rt x,
      Str (status_null_value self),
      get_field x ''value'',
      Str (canonical_value_type (get_field x ''valueType'')),
      Str (change_type_value self)]"

definition pcdm_rows :: "runtime \<Rightarrow> EdgeXJsonToPCDMTransformer \<Rightarrow> cell list \<Rightarrow> cell list list" where
  "pcdm_rows rt self r =
     (case payload rt (columns (data self)) r of
        None \<Rightarrow> []
      | Some b \<Rightarrow> map (pcdm_row rt self b) (reading_cells b))"

text \<open>All the readings of a dataframe, in the order in which \<open>explode\<close> hands them on.\<close>

definition exploded_readings :: "runtime \<Rightarrow> dataframe \<Rightarrow> cell list" where
  "exploded_readings rt df =
     concat (map (\<lambda>r. case payload rt (columns df) r of None \<Rightarrow> [] | Some b \<Rightarrow> reading_cells b)
                 (rows df))"

subsection \<open>Two sessions and a dataframe to run the transformer on\<close>

text \<open>
  A payload of one device with four readings, the first with the origin of one second
  after the epoch, the last with a value type that is not in the list. The parser of the
  sessions knows the text \<open>payload-1\<close> as this payload and nothing else. The sessions differ
  in their time zone only; Paris is an hour ahead of UTC.
\<close>

definition demo_payload :: edgex where
  "demo_payload =
     \<lparr>e_deviceName = Some ''Random-Device'',
      e_readings = Some
        [Some \<lparr>r_origin = Some 1000000000, r_value = Str ''true'', r_valueType = Some ''Bool''\<rparr>,
         Some \<lparr>r_origin = Some 1683866798739958852, r_value = Str ''-7'', r_valueType = Some ''Int8''\<rparr>,
         Some \<lparr>r_origin = Some 2500000000, r_value = Str ''1.5'', r_valueType = Some ''Float64''\<rparr>,
         Some \<lparr>r_origin = None, r_value = Str ''AQID'', r_valueType = Some ''Binary''\<rparr>]\<rparr>"

definition demo_runtime :: "string \<Rightarrow> runtime" where
  "demo_runtime tz =
     \<lparr>timeZone = tz,
      caseSensitive = False,
      parse_edgex = (\<lambda>c. if c = Str ''payload-1'' then Some demo_payload else None),
      zone_offset = (\<lambda>z t. if z = ''Europe/Paris'' then 3600000000 else 0)\<rparr>"

definition utc_runtime :: runtime where
  "utc_runtime = demo_runtime ''UTC''"

definition paris_runtime :: runtime where
  "paris_runtime = demo_runtime ''Europe/Paris''"

definition demo_data :: dataframe where
  "demo_data =
     \<lparr>columns = [''partition'', ''body'', ''sequenceNumber''],
      rows = [[Str ''0'', Str ''payload-1'', Long 17],
              [Str ''1'', Str ''not json'', Long 18]]\<rparr>"

definition demo_transformer :: EdgeXJsonToPCDMTransformer where
  "demo_transformer = edgex_init demo_data None None"

definition demo_output :: "int \<Rightarrow> dataframe" where
  "demo_output offset =
     \<lparr>columns = [''TagName'', ''EventTime'', ''Status'', ''Value'', ''ValueType'', ''ChangeType''],
      rows =
        [[Str ''Random-Device'', Timestamp (1000000 - offset), Str ''Good'', Str ''true'',
          Str ''bool'', Str ''insert''],
         [Str ''Random-Device'', Timestamp (1683866798739958 - offset), Str ''Good'', Str ''-7'',
          Str ''integer'', Str ''insert''],
         [Str ''Random-Device'', Timestamp (2500000 - offset), Str ''Good'', Str ''1.5'',
          Str ''float'', Str ''insert''],
         [Str ''Random-Device'', Null, Str ''Good'', Str ''AQID'',
          Str ''string'', Str ''insert'']]\<rparr>"

section \<open>Lemmas on the dataframe operations\<close>

lemma resolver_refl: "resolver rt a a"
  by (simp add: resolver_def)

lemma lower_lits:
  "map lower_char ''body'' = ''body''"
  "map lower_char ''col'' = ''col''"
  "map lower_char ''TagName'' = ''tagname''"
  "map lower_char ''EventTime'' = ''eventtime''"
  "map lower_char ''Status'' = ''status''"
  "map lower_char ''Value'' = ''value''"
  "map lower_char ''ValueType'' = ''valuetype''"
  "map lower_char ''ChangeType'' = ''changetype''"
  by (simp_all add: lower_char_def)

lemma body_not_col: "resolver rt c ''body'' \<Longrightarrow> \<not> resolver rt c ''col''"
  by (auto simp: resolver_def lower_lits split: if_splits)

lemma resolver_body_col:
  "\<not> resolver rt ''col'' ''body''" "\<not> resolver rt ''body'' ''col''"
  by (simp_all add: resolver_def lower_char_def)

lemma resolver_names:
  "resolver rt ''TagName'' ''TagName''"
  "\<not> resolver rt ''TagName'' ''EventTime''"
  "\<not> resolver rt ''TagName'' ''Value''"
  "\<not> resolver rt ''TagName'' ''ValueType''"
  "\<not> resolver rt ''TagName'' ''Status''"
  "\<not> resolver rt ''TagName'' ''ChangeType''"
  "\<not> resolver rt ''EventTime'' ''TagName''"
  "resolver rt ''EventTime'' ''EventTime''"
  "\<not> resolver rt ''EventTime'' ''Value''"
  "\<not> resolver rt ''EventTime'' ''ValueType''"
  "\<not> resolver rt ''EventTime'' ''Status''"
  "\<not> resolver rt ''EventTime'' ''ChangeType''"
  "\<not> resolver rt ''Value'' ''TagName''"
  "\<not> resolver rt ''Value'' ''EventTime''"
  "resolver rt ''Value'' ''Value''"
  "\<not> resolver rt ''Value'' ''ValueType''"
  "\<not> resolver rt ''Value'' ''Status''"
  "\<not> resolver rt ''Value'' ''ChangeType''"
  "\<not> resolver rt ''ValueType'' ''TagName''"
  "\<not> resolver rt ''ValueType'' ''EventTime''"
  "\<not> resolver rt ''ValueType'' ''Value''"
  "resolver rt ''ValueType'' ''ValueType''"
  "\<not> resolver rt ''ValueType'' ''Status''"
  "\<not> resolver rt ''ValueType'' ''ChangeType''"
  "\<not> resolver rt ''Status'' ''TagName''"
  "\<not> resolver rt ''Status'' ''EventTime''"
  "\<not> resolver rt ''Status'' ''Value''"
  "\<not> resolver rt ''Status'' ''ValueType''"
  "resolver rt ''Status'' ''Status''"
  "\<not> resolver rt ''Status'' ''ChangeType''"
  "\<not> resolver rt ''ChangeType'' ''TagName''"
  "\<not> resolver rt ''ChangeType'' ''EventTime''"
  "\<not> resolver rt ''ChangeType'' ''Value''"
  "\<not> resolver rt ''ChangeType'' ''ValueType''"
  "\<not> resolver rt ''ChangeType'' ''Status''"
  "resolver rt ''ChangeType'' ''ChangeType''"
  by (simp_all add: resolver_def lower_char_def)

lemma resolvable_Col:
  "resolvable rt cols (Col c fs) = (length (filter (\<lambda>n. resolver rt n c) cols) = 1)"
  by (simp add: resolvable_def)

lemma resolvable_Lit: "resolvable rt cols (Lit v)"
  by (simp add: resolvable_def)

lemma resolvable_chain:
  "resolvable rt cols value_type_chain =
     (length (filter (\<lambda>n. resolver rt n ''ValueType'') cols) = 1)"
proof -
  have "set (references value_type_chain) = {''ValueType''}"
    by (simp add: value_type_chain_def)
  then show ?thesis
    by (simp add: resolvable_def list_all_iff)
qed

lemma resolvable_event_time:
  "resolvable rt cols event_time_expr = (length (filter (\<lambda>n. resolver rt n ''col'') cols) = 1)"
  by (simp add: resolvable_def event_time_expr_def)

lemma chain_eval:
  "eval rt row value_type_chain =
     Str (canonical_value_type (case resolve rt ''ValueType'' row of Some v \<Rightarrow> v | None \<Rightarrow> Null))"
proof -
  have "eval rt row value_type_chain = Str (canonical_value_type c)"
    if "eval rt row (Col ''ValueType'' []) = c" for c
    using that
    by (cases c)
      (simp_all add: value_type_chain_def canonical_value_type_def image_iff del: eval.simps(1))
  then show ?thesis
    by (simp split: option.splits)
qed

lemma select_star_explode:
  "select rt [Star, Explode e] df =
     (if resolvable rt (columns df) e
      then Some \<lparr>columns = columns df @ [''col''],
                 rows = concat (map (\<lambda>r. map (\<lambda>x. r @ [x]) (array_cells (eval rt (zip (columns df) r) e)))
                                    (rows df))\<rparr>
      else None)"
proof -
  have "map concat (product_lists [[r], (case c of Array xs \<Rightarrow> map (\<lambda>x. [x]) xs | _ \<Rightarrow> [])])
      = map (\<lambda>x. r @ [x]) (array_cells c)" for r :: "cell list" and c
    by (cases c) (simp_all add: array_cells_def o_def)
  then show ?thesis
    by (simp add: select_def Let_def)
qed

lemma select_as4:
  "select rt [As a na, As b nb, As c nc, As d nd] df =
     (if resolvable rt (columns df) a \<and> resolvable rt (columns df) b \<and>
         resolvable rt (columns df) c \<and> resolvable rt (columns df) d
      then Some \<lparr>columns = [na, nb, nc, nd],
                 rows = map (\<lambda>r. [eval rt (zip (columns df) r) a, eval rt (zip (columns df) r) b,
                                   eval rt (zip (columns df) r) c, eval rt (zip (columns df) r) d])
                            (rows df)\<rparr>
      else None)"
  by (simp add: select_def Let_def)

lemma select_as6:
  "select rt [As a na, As b nb, As c nc, As d nd, As e ne, As f nf] df =
     (if resolvable rt (columns df) a \<and> resolvable rt (columns df) b \<and>
         resolvable rt (columns df) c \<and> resolvable rt (columns df) d \<and>
         resolvable rt (columns df) e \<and> resolvable rt (columns df) f
      then Some \<lparr>columns = [na, nb, nc, nd, ne, nf],
                 rows = map (\<lambda>r. [eval rt (zip (columns df) r) a, eval rt (zip (columns df) r) b,
                                   eval rt (zip (columns df) r) c, eval rt (zip (columns df) r) d,
                                   eval rt (zip (columns df) r) e, eval rt (zip (columns df) r) f])
                            (rows df)\<rparr>
      else None)"
  by (simp add: select_def Let_def)

lemma add_status:
  "withColumn rt ''Status'' (Lit v)
     \<lparr>columns = [''TagName'', ''EventTime'', ''Value'', ''ValueType''],
      rows = map (\<lambda>x. [a x, b x, c x, d x]) xs\<rparr> =
   Some \<lparr>columns = [''TagName'', ''EventTime'', ''Value'', ''ValueType'', ''Status''],
         rows = map (\<lambda>x. [a x, b x, c x, d x, v]) xs\<rparr>"
  by (simp add: withColumn_def Let_def resolvable_Lit resolver_names o_def)

lemma add_change_type:
  "withColumn rt ''ChangeType'' (Lit v)
     \<lparr>columns = [''TagName'', ''EventTime'', ''Value'', ''ValueType'', ''Status''],
      rows = map (\<lambda>x. [a x, b x, c x, d x, s x]) xs\<rparr> =
   Some \<lparr>columns = [''TagName'', ''EventTime'', ''Value'', ''ValueType'', ''Status'', ''ChangeType''],
         rows = map (\<lambda>x. [a x, b x, c x, d x, s x, v]) xs\<rparr>"
  by (simp add: withColumn_def Let_def resolvable_Lit resolver_names o_def)

lemma map_value_type:
  "withColumn rt ''ValueType'' value_type_chain
     \<lparr>columns = [''TagName'', ''EventTime'', ''Value'', ''ValueType'', ''Status'', ''ChangeType''],
      rows = map (\<lambda>x. [a x, b x, c x, d x, s x, t x]) xs\<rparr> =
   Some \<lparr>columns = [''TagName'', ''EventTime'', ''Value'', ''ValueType'', ''Status'', ''ChangeType''],
         rows = map (\<lambda>x. [a x, b x, c x, Str (canonical_value_type (d x)), s x, t x]) xs\<rparr>"
  by (simp add: withColumn_def Let_def resolvable_chain chain_eval resolve_def resolver_names o_def)

lemma final_select:
  "select rt
     [As (Col ''TagName'' []) ''TagName'',
      As (Col ''EventTime'' []) ''EventTime'',
      As (Col ''Status'' []) ''Status'',
      As (Col ''Value'' []) ''Value'',
      As (Col ''ValueType'' []) ''ValueType'',
      As (Col ''ChangeType'' []) ''ChangeType'']
     \<lparr>columns = [''TagName'', ''EventTime'', ''Value'', ''ValueType'', ''Status'', ''ChangeType''],
      rows = map (\<lambda>x. [a x, b x, c x, d x, s x, t x]) xs\<rparr> =
   Some \<lparr>columns = [''TagName'', ''EventTime'', ''Status'', ''Value'', ''ValueType'', ''ChangeType''],
         rows = map (\<lambda>x. [a x, b x, s x, c x, d x, t x]) xs\<rparr>"
  by (simp add: select_as6 resolvable_Col resolve_def resolver_names o_def)

lemma count_body_parsed:
  "length (filter (\<lambda>c. resolver rt c ''body'') (columns (parsed rt df))) =
   length (filter (\<lambda>c. resolver rt c ''body'') (columns df))"
proof -
  have "(\<lambda>c. resolver rt c ''body'') \<circ> (\<lambda>c. if resolver rt c ''body'' then ''body'' else c) =
        (\<lambda>c. resolver rt c ''body'')"
    by (auto simp: fun_eq_iff resolver_refl)
  then show ?thesis
    by (simp add: parsed_def filter_map)
qed

lemma filter_col_parsed:
  "filter (\<lambda>c. resolver rt c ''col'') (columns (parsed rt df)) =
   filter (\<lambda>c. resolver rt c ''col'') (columns df)"
proof -
  have "filter (\<lambda>c. resolver rt c ''col'') (map (\<lambda>c. if resolver rt c ''body'' then ''body'' else c) cols) =
        filter (\<lambda>c. resolver rt c ''col'') cols" for cols
    by (induction cols) (auto simp: body_not_col resolver_def lower_lits)
  then show ?thesis
    by (simp add: parsed_def)
qed

lemma parse_body:
  "withColumn rt ''body'' (FromJson (Col ''body'' [])) df =
     (if length (filter (\<lambda>c. resolver rt c ''body'') (columns df)) = 1
      then Some (parsed rt df) else None)"
proof -
  have "list_ex (\<lambda>c. resolver rt c ''body'') (columns df)"
    if "length (filter (\<lambda>c. resolver rt c ''body'') (columns df)) = 1"
  proof -
    from that have "filter (\<lambda>c. resolver rt c ''body'') (columns df) \<noteq> []"
      by auto
    then show ?thesis
      by (simp add: list_ex_iff filter_empty_conv)
  qed
  then show ?thesis
    by (simp add: withColumn_def Let_def resolvable_def parsed_def parsed_row_def)
qed

lemma explode_readings:
  "select rt [Star, Explode (Col ''body'' [''readings''])] (parsed rt df) =
     (if length (filter (\<lambda>c. resolver rt c ''body'') (columns df)) = 1
      then Some (exploded rt df) else None)"
  by (simp add: select_star_explode resolvable_Col count_body_parsed exploded_def)

lemma project:
  assumes "length (filter (\<lambda>c. resolver rt c ''body'') (columns df)) = 1"
  shows "select rt
       [As (Col ''body'' [''deviceName'']) ''TagName'',
        As event_time_expr ''EventTime'',
        As (Col ''col'' [''value'']) ''Value'',
        As (Col ''col'' [''valueType'']) ''ValueType''] (exploded rt df) =
     (if filter (\<lambda>c. resolver rt c ''col'') (columns df) = []
      then Some \<lparr>columns = [''TagName'', ''EventTime'', ''Value'', ''ValueType''],
                 rows = map (\<lambda>r. [eval rt (zip (columns (exploded rt df)) r) (Col ''body'' [''deviceName'']),
                                   eval rt (zip (columns (exploded rt df)) r) event_time_expr,
                                   eval rt (zip (columns (exploded rt df)) r) (Col ''col'' [''value'']),
                                   eval rt (zip (columns (exploded rt df)) r) (Col ''col'' [''valueType''])])
                            (rows (exploded rt df))\<rparr>
      else None)"
proof -
  have b: "length (filter (\<lambda>c. resolver rt c ''body'') (columns (exploded rt df))) = 1"
    using assms by (simp add: exploded_def count_body_parsed resolver_body_col)
  have c: "(length (filter (\<lambda>c. resolver rt c ''col'') (columns (exploded rt df))) = 1) =
           (filter (\<lambda>c. resolver rt c ''col'') (columns df) = [])"
    by (simp add: exploded_def filter_col_parsed resolver_refl)
  show ?thesis
    by (simp only: select_as4 resolvable_Col resolvable_event_time b c) simp
qed

lemma transform_shape:
  "transform rt self =
     (if accepts rt (columns (data self))
      then Some \<lparr>columns = [''TagName'', ''EventTime'', ''Status'', ''Value'', ''ValueType'', ''ChangeType''],
                 rows = map (output_row rt self (columns (exploded rt (data self))))
                            (rows (exploded rt (data self)))\<rparr>
      else None)"
proof (cases "length (filter (\<lambda>c. resolver rt c ''body'') (columns (data self))) = 1")
  case False
  then show ?thesis
    by (simp add: transform_def parse_body accepts_def)
next
  case body: True
  show ?thesis
  proof (cases "filter (\<lambda>c. resolver rt c ''col'') (columns (data self)) = []")
    case False
    with body show ?thesis
      by (simp add: transform_def parse_body explode_readings project accepts_def)
  next
    case True
    with body show ?thesis
      by (simp only: transform_def parse_body explode_readings project [OF body] accepts_def
          add_status add_change_type map_value_type final_select if_True Option.bind.simps simp_thms
          output_row_def [abs_def])
  qed
qed

lemma zip_map_zip:
  "length r = length cols \<Longrightarrow>
   zip (map f cols) (map g (zip cols r)) = map (\<lambda>(c, x). (f c, g (c, x))) (zip cols r)"
  by (induction r cols rule: list_induct2) auto

lemma fst_filter_zip:
  "length r = length cols \<Longrightarrow>
   map fst (filter (\<lambda>(c, x). P c) (zip cols r)) = filter P cols"
  by (induction r cols rule: list_induct2) auto

lemma resolve_Some:
  "filter (\<lambda>(n, v). resolver rt n c) named = [(n, v)] \<Longrightarrow> resolve rt c named = Some v"
  by (simp add: resolve_def)

lemma unique_hit:
  assumes "length r = length cols" and "length (filter P cols) = 1"
  obtains n v where "filter (\<lambda>(c, x). P c) (zip cols r) = [(n, v)]" and "P n"
proof -
  have "length (filter (\<lambda>(c, x). P c) (zip cols r)) = 1"
    using fst_filter_zip [OF assms(1), of P] assms(2) by (metis length_map)
  then obtain p where p: "filter (\<lambda>(c, x). P c) (zip cols r) = [p]"
    by (auto simp: length_Suc_conv)
  then have "p \<in> set (filter (\<lambda>(c, x). P c) (zip cols r))"
    by simp
  then have "P (fst p)"
    by auto
  with p that [of "fst p" "snd p"] show ?thesis
    by simp
qed

lemma no_hit:
  assumes "length r = length cols" and "filter P cols = []"
  shows "filter (\<lambda>(c, x). P c) (zip cols r) = []"
  using fst_filter_zip [OF assms(1), of P] assms(2) by simp

lemma parsed_row_lookup:
  fixes rt cols r
  defines "P \<equiv> \<lambda>c. resolver rt c ''body''"
  defines "J \<equiv> eval rt (zip cols r) (FromJson (Col ''body'' []))"
  defines "r1 \<equiv> parsed_row rt cols r"
  defines "cols1 \<equiv> map (\<lambda>c. if P c then ''body'' else c) cols"
  assumes len: "length r = length cols" and acc: "accepts rt cols"
  shows "J = nullable edgex_cell (payload rt cols r)"
    and "resolve rt ''body'' (zip cols1 r1) = Some J"
    and "resolve rt ''body'' (zip (cols1 @ [''col'']) (r1 @ [x])) = Some J"
    and "resolve rt ''col'' (zip (cols1 @ [''col'']) (r1 @ [x])) = Some x"
proof -
  from acc have one: "length (filter P cols) = 1" and none: "filter (\<lambda>c. resolver rt c ''col'') cols = []"
    by (simp_all add: accepts_def P_def)
  from unique_hit [OF len one] obtain n v
    where hit: "filter (\<lambda>(c, x). P c) (zip cols r) = [(n, v)]" and n: "P n"
    by blast
  have body: "resolve rt ''body'' (zip cols r) = Some v"
    using hit by (simp add: resolve_def P_def)
  show J: "J = nullable edgex_cell (payload rt cols r)"
    by (simp add: J_def payload_def body)
  have z: "zip cols1 r1 = map (\<lambda>(c, x). (if P c then ''body'' else c, if P c then J else x)) (zip cols r)"
    unfolding cols1_def r1_def parsed_row_def P_def J_def
    using zip_map_zip [OF len] by (simp add: case_prod_unfold del: eval.simps)
  have pb: "P ''body''"
    by (simp add: P_def resolver_refl)
  have "filter (\<lambda>(c, x). P c) (zip cols1 r1) =
        map (\<lambda>(c, x). (if P c then ''body'' else c, if P c then J else x)) (filter (\<lambda>(c, x). P c) (zip cols r))"
    unfolding z filter_map by (rule arg_cong [where f = "map _"], rule filter_cong) (auto simp: pb split: if_splits)
  then have f1: "filter (\<lambda>(c, x). P c) (zip cols1 r1) = [(''body'', J)]"
    by (simp add: hit n)
  then show "resolve rt ''body'' (zip cols1 r1) = Some J"
    by (simp add: resolve_def P_def)
  have l1: "length r1 = length cols1"
    by (simp add: r1_def parsed_row_def cols1_def len)
  have "filter (\<lambda>c. resolver rt c ''col'') cols1 = []"
    using filter_col_parsed [of rt "\<lparr>columns = cols, rows = []\<rparr>"] none
    by (simp add: parsed_def cols1_def P_def)
  then have f2: "filter (\<lambda>(c, x). resolver rt c ''col'') (zip cols1 r1) = []"
    by (rule no_hit [OF l1])
  have za: "zip (cols1 @ [''col'']) (r1 @ [x]) = zip cols1 r1 @ [(''col'', x)]"
    using l1 by simp
  show "resolve rt ''body'' (zip (cols1 @ [''col'']) (r1 @ [x])) = Some J"
    using f1 by (simp add: za resolve_def P_def resolver_body_col)
  show "resolve rt ''col'' (zip (cols1 @ [''col'']) (r1 @ [x])) = Some x"
    using f2 by (simp add: za resolve_def resolver_refl)
qed

lemma event_time_eval:
  "resolve rt ''col'' row = Some x \<Longrightarrow> eval rt row event_time_expr = event_time rt x"
  by (simp add: event_time_expr_def event_time_def)

lemma payload_cells:
  "array_cells (get_field (nullable edgex_cell p) ''readings'') =
     (case p of None \<Rightarrow> [] | Some b \<Rightarrow> reading_cells b)"
  "get_field (nullable edgex_cell (Some b)) ''deviceName'' = nullable Str (e_deviceName b)"
  by (simp_all add: nullable_def edgex_cell_def array_cells_def reading_cells_def
      split: option.splits)

lemma row_closed:
  assumes len: "length r = length (columns (data self))" and acc: "accepts rt (columns (data self))"
  shows "map (output_row rt self (columns (exploded rt (data self))))
           (map (\<lambda>x. parsed_row rt (columns (data self)) r @ [x])
              (array_cells
                 (eval rt
                    (zip (columns (parsed rt (data self))) (parsed_row rt (columns (data self)) r))
                    (Col ''body'' [''readings'']))))
         = pcdm_rows rt self r"
proof -
  define J where "J = eval rt (zip (columns (data self)) r) (FromJson (Col ''body'' []))"
  define r1 where "r1 = parsed_row rt (columns (data self)) r"
  define cols1 where "cols1 = map (\<lambda>c. if resolver rt c ''body'' then ''body'' else c) (columns (data self))"
  define cols2 where "cols2 = columns (exploded rt (data self))"
  note lk = parsed_row_lookup [OF len acc, folded J_def r1_def cols1_def]
  have c2: "cols2 = cols1 @ [''col'']"
    by (simp add: cols2_def exploded_def parsed_def cols1_def)
  have c1: "columns (parsed rt (data self)) = cols1"
    by (simp add: parsed_def cols1_def)
  have rd: "eval rt (zip cols1 r1) (Col ''body'' [''readings'']) = get_field J ''readings''"
    by (simp add: lk(2))
  have ev: "eval rt (zip cols2 (r1 @ [x])) (Col ''body'' [''deviceName'']) = get_field J ''deviceName''"
    "eval rt (zip cols2 (r1 @ [x])) event_time_expr = event_time rt x"
    "eval rt (zip cols2 (r1 @ [x])) (Col ''col'' [''value'']) = get_field x ''value''"
    "eval rt (zip cols2 (r1 @ [x])) (Col ''col'' [''valueType'']) = get_field x ''valueType''" for x
    unfolding c2 by (simp_all only: eval.simps(1) lk(3) lk(4) event_time_eval option.case foldl.simps)
  have main: "map (output_row rt self cols2)
           (map (\<lambda>x. r1 @ [x]) (array_cells (eval rt (zip cols1 r1) (Col ''body'' [''readings'']))))
       = pcdm_rows rt self r"
    unfolding rd map_map o_def output_row_def ev lk(1)
    by (cases "payload rt (columns (data self)) r")
      (simp_all add: payload_cells pcdm_rows_def pcdm_row_def)
  show ?thesis
    using main unfolding c1 r1_def cols2_def .
qed

lemma transform_closed_form:
  assumes wf: "well_formed (data self)"
  shows "transform rt self =
     (if accepts rt (columns (data self))
      then Some \<lparr>columns = [''TagName'', ''EventTime'', ''Status'', ''Value'', ''ValueType'', ''ChangeType''],
                 rows = concat (map (pcdm_rows rt self) (rows (data self)))\<rparr>
      else None)"
proof (cases "accepts rt (columns (data self))")
  case False
  then show ?thesis
    by (simp add: transform_shape)
next
  case True
  have len: "length r = length (columns (data self))" if "r \<in> set (rows (data self))" for r
    using wf that by (simp add: well_formed_def list_all_iff)
  have "map (output_row rt self (columns (exploded rt (data self)))) (rows (exploded rt (data self)))
      = concat (map (\<lambda>r. map (output_row rt self (columns (exploded rt (data self))))
           (map (\<lambda>x. parsed_row rt (columns (data self)) r @ [x])
              (array_cells
                 (eval rt
                    (zip (columns (parsed rt (data self))) (parsed_row rt (columns (data self)) r))
                    (Col ''body'' [''readings'']))))) (rows (data self)))"
    by (simp add: exploded_def [of rt "data self"] parsed_def [of rt "data self"] map_concat o_def
        del: eval.simps)
  also have "\<dots> = concat (map (pcdm_rows rt self) (rows (data self)))"
    by (rule arg_cong [where f = concat], rule map_cong [OF refl]) (rule row_closed [OF len True])
  finally show ?thesis
    using True by (simp only: transform_shape if_True)
qed

lemma pcdm_rows_columnwise:
  "map (\<lambda>r. r ! 1) (pcdm_rows rt self r) =
     map (event_time rt) (case payload rt (columns (data self)) r of None \<Rightarrow> [] | Some b \<Rightarrow> reading_cells b)"
  "map (\<lambda>r. r ! 4) (pcdm_rows rt self r) =
     map (\<lambda>x. Str (canonical_value_type (get_field x ''valueType'')))
       (case payload rt (columns (data self)) r of None \<Rightarrow> [] | Some b \<Rightarrow> reading_cells b)"
  "map (\<lambda>r. (r ! 2, r ! 5)) (pcdm_rows rt self r) =
     map (\<lambda>x. (Str (status_null_value self), Str (change_type_value self)))
       (case payload rt (columns (data self)) r of None \<Rightarrow> [] | Some b \<Rightarrow> reading_cells b)"
  by (simp_all add: pcdm_rows_def pcdm_row_def o_def split: option.splits)

lemma transform_accepted:
  assumes "well_formed (data self)" and "accepts rt (columns (data self))"
  shows "transform rt self =
     Some \<lparr>columns = [''TagName'', ''EventTime'', ''Status'', ''Value'', ''ValueType'', ''ChangeType''],
           rows = concat (map (pcdm_rows rt self) (rows (data self)))\<rparr>"
  using assms by (simp add: transform_closed_form)

lemma accepted_columnwise:
  "map (\<lambda>r. r ! 1) (concat (map (pcdm_rows rt self) (rows (data self)))) =
     map (event_time rt) (exploded_readings rt (data self))"
  "map (\<lambda>r. r ! 4) (concat (map (pcdm_rows rt self) (rows (data self)))) =
     map (\<lambda>x. Str (canonical_value_type (get_field x ''valueType'')))
       (exploded_readings rt (data self))"
  "map (\<lambda>r. (r ! 2, r ! 5)) (concat (map (pcdm_rows rt self) (rows (data self)))) =
     map (\<lambda>x. (Str (status_null_value self), Str (change_type_value self)))
       (exploded_readings rt (data self))"
  by (simp_all only: map_concat map_map o_def pcdm_rows_columnwise exploded_readings_def)

lemma one_second: "to_timestamp (divide_cells (Long 1000000000) (Long 1000000000)) = Timestamp 1000000"
  by code_simp



lemma demo_run_utc: "transform utc_runtime demo_transformer = Some (demo_output 0)"
  by code_simp

lemma demo_run_paris: "transform paris_runtime demo_transformer = Some (demo_output 3600000000)"
  by code_simp

lemma demo_well_formed: "well_formed (data demo_transformer)"
  by (simp add: demo_transformer_def edgex_init_def demo_data_def well_formed_def)

lemma demo_accepts:
  "accepts utc_runtime (columns (data demo_transformer))"
  "accepts paris_runtime (columns (data demo_transformer))"
  by (simp_all add: accepts_def demo_transformer_def edgex_init_def demo_data_def resolver_def
      utc_runtime_def paris_runtime_def demo_runtime_def lower_char_def)

lemma demo_readings:
  "map (\<lambda>x. (get_field x ''origin'', get_field x ''valueType''))
     (exploded_readings utc_runtime (data demo_transformer)) =
     [(Long 1000000000, Str ''Bool''), (Long 1683866798739958852, Str ''Int8''),
      (Long 2500000000, Str ''Float64''), (Null, Str ''Binary'')]"
  "map (\<lambda>x. (get_field x ''origin'', get_field x ''valueType''))
     (exploded_readings paris_runtime (data demo_transformer)) =
     [(Long 1000000000, Str ''Bool''), (Long 1683866798739958852, Str ''Int8''),
      (Long 2500000000, Str ''Float64''), (Null, Str ''Binary'')]"
  by code_simp+


section \<open>Properties of the Eventhub source\<close>

lemma call_unfold:
  "call Read self = read_batch self" "call ReadStream self = read_stream self"
  by (simp_all add: call_def)

lemma read_batch_absent:
  assumes "options self eventhub_connection_string = None"
  shows "read_batch self =
     (case load (spark self) Read (options self) of
        Inl e \<Rightarrow> (Inl e, self, [LoadCall Read (options self), Print e, LoggingException (log_text Read)])
      | Inr df \<Rightarrow> (Inr df, self, [LoadCall Read (options self)]))"
  using assms by (simp add: read_batch_def log_text_def split: sum.splits)

lemma read_stream_absent:
  assumes "options self eventhub_connection_string = None"
  shows "read_stream self =
     (case load (spark self) ReadStream (options self) of
        Inl e \<Rightarrow>
          (Inl e, self, [LoadCall ReadStream (options self), Print e, LoggingException (log_text ReadStream)])
      | Inr df \<Rightarrow> (Inr df, self, [LoadCall ReadStream (options self)]))"
  using assms by (simp add: read_stream_def log_text_def split: sum.splits)

lemma call_absent:
  assumes "options self eventhub_connection_string = None"
  shows "call r self =
     (case load (spark self) r (options self) of
        Inl e \<Rightarrow> (Inl e, self, [LoadCall r (options self), Print e, LoggingException (log_text r)])
      | Inr df \<Rightarrow> (Inr df, self, [LoadCall r (options self)]))"
  using assms by (cases r) (simp_all add: call_unfold read_batch_absent read_stream_absent split: sum.splits)

lemma call_encrypt_raises:
  assumes "options self eventhub_connection_string = Some v" and "encrypt (spark self) v = Inl e"
  shows "call r self = (Inl e, self, [EncryptCall v, Print e, LoggingException (log_text r)])"
  using assms by (cases r) (simp_all add: call_unfold read_batch_def read_stream_def log_text_def)

lemma call_encrypt_returns:
  assumes "options self eventhub_connection_string = Some v" and "encrypt (spark self) v = Inr c"
  shows "call r self =
     (let self' = self\<lparr>options := (options self)(eventhub_connection_string \<mapsto> c)\<rparr> in
      case load (spark self) r (options self') of
        Inl e \<Rightarrow>
          (Inl e, self', [EncryptCall v, LoadCall r (options self'), Print e, LoggingException (log_text r)])
      | Inr df \<Rightarrow> (Inr df, self', [EncryptCall v, LoadCall r (options self')]))"
  using assms by (cases r) (simp_all add: call_unfold read_batch_def read_stream_def log_text_def Let_def split: sum.splits)

lemma call_cases:
  obtains
    (absent) "options self eventhub_connection_string = None"
  | (raises) v e where "options self eventhub_connection_string = Some v"
      and "encrypt (spark self) v = Inl e"
  | (returns) v c where "options self eventhub_connection_string = Some v"
      and "encrypt (spark self) v = Inr c"
proof (cases "options self eventhub_connection_string")
  case None
  then show ?thesis by (rule absent)
next
  case (Some v)
  then show ?thesis
    by (cases "encrypt (spark self) v") (auto intro: raises returns)
qed

text \<open>
  C5, as the claim states it: a call invokes the encryption utility and rewrites the
  connection-string entry if and only if the key is in the options. It is false: with the
  key in the options and a utility that raises, the call invokes the utility and rewrites
  nothing; the entry holds the connection string it held before, and the call raises.
\<close>

theorem no_rewrite_when_encryption_raises:
  "options failing_source eventhub_connection_string = Some ''Endpoint=sb://demo'' \<and>
   effects (read_batch failing_source) =
     [EncryptCall ''Endpoint=sb://demo'', Print ''encryption failed'',
      LoggingException ''error with spark read batch eventhub function''] \<and>
   object_after (read_batch failing_source) = failing_source \<and>
   options (object_after (read_batch failing_source)) eventhub_connection_string =
     Some ''Endpoint=sb://demo'' \<and>
   result (read_batch failing_source) = Inl ''encryption failed''"
proof -
  have p: "options failing_source eventhub_connection_string = Some ''Endpoint=sb://demo''"
    by (simp add: failing_source_def init_def demo_options_def eventhub_connection_string_def)
  have e: "encrypt (spark failing_source) ''Endpoint=sb://demo'' = Inl ''encryption failed''"
    by (simp add: failing_source_def init_def failing_session_def)
  show ?thesis
    using call_encrypt_raises [OF p e, of Read] p
    by (simp add: call_unfold log_text_def)
qed

text \<open>
  C5, amended: a call of \<open>read_batch\<close> or \<open>read_stream\<close> invokes the encryption utility if
  and only if the key \<open>eventhubs.connectionString\<close> is in the options, and it rewrites the
  entry if and only if the key is there and the utility returns. In full: with the key
  absent, the object is unchanged, the utility is not called and the load gets the options
  as they are; with the key present and the utility returning, the object is the one
  before with the utility's result under the key and every other entry as it was, and the
  load gets this mapping; with the key present and the utility raising, the object is
  unchanged, the load is not called and the call raises the utility's exception.
\<close>

theorem encryption_pre_step_effect:
  "((\<exists>x \<in> set (effects (call r self)). is_EncryptCall x) \<longleftrightarrow>
      eventhub_connection_string \<in> dom (options self)) \<and>
   (options self eventhub_connection_string = None \<longrightarrow>
      object_after (call r self) = self \<and>
      filter is_EncryptCall (effects (call r self)) = [] \<and>
      filter is_LoadCall (effects (call r self)) = [LoadCall r (options self)]) \<and>
   (\<forall>v c. options self eventhub_connection_string = Some v \<and> encrypt (spark self) v = Inr c \<longrightarrow>
      object_after (call r self) =
        self\<lparr>options := (options self)(eventhub_connection_string \<mapsto> c)\<rparr> \<and>
      filter is_EncryptCall (effects (call r self)) = [EncryptCall v] \<and>
      filter is_LoadCall (effects (call r self)) =
        [LoadCall r ((options self)(eventhub_connection_string \<mapsto> c))]) \<and>
   (\<forall>v e. options self eventhub_connection_string = Some v \<and> encrypt (spark self) v = Inl e \<longrightarrow>
      object_after (call r self) = self \<and>
      result (call r self) = Inl e \<and>
      filter is_EncryptCall (effects (call r self)) = [EncryptCall v] \<and>
      filter is_LoadCall (effects (call r self)) = [])"
proof (cases self rule: call_cases)
  case absent
  then show ?thesis
    by (cases "load (spark self) r (options self)")
      (simp_all add: call_absent is_EncryptCall_def is_LoadCall_def domIff)
next
  case (raises v e)
  then show ?thesis
    by (simp add: call_encrypt_raises is_EncryptCall_def is_LoadCall_def domIff)
next
  case (returns v c)
  then show ?thesis
    by (cases "load (spark self) r ((options self)(eventhub_connection_string \<mapsto> c))")
      (simp_all add: call_encrypt_returns Let_def is_EncryptCall_def is_LoadCall_def domIff)
qed

theorem encryption_pre_step_effect_witness:
  "options bare_source eventhub_connection_string = None \<and>
   object_after (read_stream bare_source) = bare_source \<and>
   filter is_LoadCall (effects (read_stream bare_source)) = [LoadCall ReadStream Map.empty] \<and>
   options demo_source eventhub_connection_string = Some ''Endpoint=sb://demo'' \<and>
   encrypt (spark demo_source) ''Endpoint=sb://demo'' = Inr ''<Endpoint=sb://demo>'' \<and>
   options (object_after (read_batch demo_source)) eventhub_connection_string =
     Some ''<Endpoint=sb://demo>'' \<and>
   options (object_after (read_batch demo_source)) ''eventhubs.consumerGroup'' = Some ''$Default'' \<and>
   options failing_source eventhub_connection_string = Some ''Endpoint=sb://demo'' \<and>
   encrypt (spark failing_source) ''Endpoint=sb://demo'' = Inl ''encryption failed'' \<and>
   object_after (read_batch failing_source) = failing_source \<and>
   filter is_LoadCall (effects (read_batch failing_source)) = []"
proof -
  have a: "options bare_source eventhub_connection_string = None"
    and o: "options bare_source = Map.empty"
    by (simp_all add: bare_source_def init_def)
  have p: "options demo_source eventhub_connection_string = Some ''Endpoint=sb://demo''"
    and g: "options demo_source ''eventhubs.consumerGroup'' = Some ''$Default''"
    by (simp_all add: demo_source_def init_def demo_options_def eventhub_connection_string_def)
  have e: "encrypt (spark demo_source) ''Endpoint=sb://demo'' = Inr ''<Endpoint=sb://demo>''"
    by (simp add: demo_source_def init_def demo_session_def)
  have fp: "options failing_source eventhub_connection_string = Some ''Endpoint=sb://demo''"
    by (simp add: failing_source_def init_def demo_options_def eventhub_connection_string_def)
  have fe: "encrypt (spark failing_source) ''Endpoint=sb://demo'' = Inl ''encryption failed''"
    by (simp add: failing_source_def init_def failing_session_def)
  have k: "eventhub_connection_string \<noteq> ''eventhubs.consumerGroup''"
    by (simp add: eventhub_connection_string_def)
  show ?thesis
    using encryption_pre_step_effect [of ReadStream bare_source]
      encryption_pre_step_effect [of Read demo_source]
      encryption_pre_step_effect [of Read failing_source] a o p g e fp fe k
    by (simp add: call_unfold)
qed

text \<open>
  C6. When the external load that \<open>read_batch\<close> or \<open>read_stream\<close> calls raises an exception,
  the method raises that same exception. The load is the one on the options as they are
  when the key is absent, and the one on the rewritten options when the key is present and
  the utility returns. In both cases the method gives no dataframe, it calls the load once,
  and after the load it only prints the exception and logs it. Nothing but an exception of
  the load or of the utility comes out of a method. (As said with the model, the exception
  is one that \<open>except Exception\<close> catches, and \<open>print\<close> and \<open>logging.exception\<close> return.)
\<close>

theorem load_exception_reraised_verbatim:
  "(options self eventhub_connection_string = None \<and>
    load (spark self) r (options self) = Inl e \<longrightarrow>
      result (call r self) = Inl e \<and>
      effects (call r self) =
        [LoadCall r (options self), Print e, LoggingException (log_text r)]) \<and>
   (options self eventhub_connection_string = Some v \<and>
    encrypt (spark self) v = Inr c \<and>
    load (spark self) r ((options self)(eventhub_connection_string \<mapsto> c)) = Inl e \<longrightarrow>
      result (call r self) = Inl e \<and>
      effects (call r self) =
        [EncryptCall v, LoadCall r ((options self)(eventhub_connection_string \<mapsto> c)),
         Print e, LoggingException (log_text r)]) \<and>
   (result (call r self) = Inl e \<longrightarrow>
      (options self eventhub_connection_string = None \<and>
       load (spark self) r (options self) = Inl e) \<or>
      (\<exists>v c. options self eventhub_connection_string = Some v \<and>
         encrypt (spark self) v = Inr c \<and>
         load (spark self) r ((options self)(eventhub_connection_string \<mapsto> c)) = Inl e) \<or>
      (\<exists>v. options self eventhub_connection_string = Some v \<and>
         encrypt (spark self) v = Inl e))"
proof (cases self rule: call_cases)
  case absent
  then show ?thesis
    by (cases "load (spark self) r (options self)") (auto simp: call_absent)
next
  case (raises v' e')
  then show ?thesis
    by (auto simp: call_encrypt_raises)
next
  case (returns v' c')
  then show ?thesis
    by (cases "load (spark self) r ((options self)(eventhub_connection_string \<mapsto> c'))")
      (auto simp: call_encrypt_returns Let_def)
qed

theorem load_exception_reraised_verbatim_witness:
  "options bare_source eventhub_connection_string = None \<and>
   load (spark bare_source) Read (options bare_source) = Inl ''no consumer group'' \<and>
   result (read_batch bare_source) = Inl ''no consumer group'' \<and>
   options keyed_source eventhub_connection_string = Some ''Endpoint=sb://demo'' \<and>
   encrypt (spark keyed_source) ''Endpoint=sb://demo'' = Inr ''<Endpoint=sb://demo>'' \<and>
   load (spark keyed_source) ReadStream
     ((options keyed_source)(eventhub_connection_string \<mapsto> ''<Endpoint=sb://demo>'')) =
     Inl ''no consumer group'' \<and>
   result (read_stream keyed_source) = Inl ''no consumer group''"
proof -
  have a: "options bare_source eventhub_connection_string = None"
    by (simp add: bare_source_def init_def)
  have l: "load (spark bare_source) Read (options bare_source) = Inl ''no consumer group''"
    by (simp add: bare_source_def init_def demo_session_def)
  have p: "options keyed_source eventhub_connection_string = Some ''Endpoint=sb://demo''"
    by (simp add: keyed_source_def init_def eventhub_connection_string_def)
  have e: "encrypt (spark keyed_source) ''Endpoint=sb://demo'' = Inr ''<Endpoint=sb://demo>''"
    by (simp add: keyed_source_def init_def demo_session_def)
  have m: "load (spark keyed_source) ReadStream
     ((options keyed_source)(eventhub_connection_string \<mapsto> ''<Endpoint=sb://demo>'')) =
     Inl ''no consumer group''"
    by (simp add: keyed_source_def init_def demo_session_def eventhub_connection_string_def)
  show ?thesis
    using load_exception_reraised_verbatim
        [of bare_source Read "''no consumer group''" "''Endpoint=sb://demo''" "''<Endpoint=sb://demo>''"]
      load_exception_reraised_verbatim
        [of keyed_source ReadStream "''no consumer group''" "''Endpoint=sb://demo''"
          "''<Endpoint=sb://demo>''"]
      a l p e m
    by (simp add: call_unfold)
qed

text \<open>
  C7. \<open>read_batch\<close> and \<open>read_stream\<close> are the same contract, the one with the one-shot
  reader and the other with the streaming reader (and each with its own text in the log
  line): the same encryption pre-step, the load request built from the full options, the
  same handling of an exception. Whatever the readers do, both leave the same object
  behind, both make the same calls of the encryption utility, and both give the load the
  same mapping.
\<close>

theorem read_stream_is_read_batch_with_streaming_load:
  "read_batch self = read_contract Read (log_text Read) self \<and>
   read_stream self = read_contract ReadStream (log_text ReadStream) self \<and>
   object_after (read_stream self) = object_after (read_batch self) \<and>
   filter is_EncryptCall (effects (read_stream self)) =
     filter is_EncryptCall (effects (read_batch self)) \<and>
   (\<forall>opts. (LoadCall ReadStream opts \<in> set (effects (read_stream self))) =
            (LoadCall Read opts \<in> set (effects (read_batch self))))"
proof -
  have c: "call r self = read_contract r (log_text r) self" for r
  proof (cases self rule: call_cases)
    case absent
    then show ?thesis
      by (cases "load (spark self) r (options self)")
        (simp_all add: call_absent read_contract_def encryption_pre_step_def
          log_and_reraise_def domIff)
  next
    case (raises v e)
    then show ?thesis
      by (simp add: call_encrypt_raises read_contract_def encryption_pre_step_def
          log_and_reraise_def domIff)
  next
    case (returns v c)
    then show ?thesis
      by (cases "load (spark self) r ((options self)(eventhub_connection_string \<mapsto> c))")
        (simp_all add: call_encrypt_returns read_contract_def encryption_pre_step_def
          log_and_reraise_def domIff Let_def)
  qed
  have rest: "object_after (call ReadStream self) = object_after (call Read self) \<and>
     filter is_EncryptCall (effects (call ReadStream self)) =
       filter is_EncryptCall (effects (call Read self)) \<and>
     (\<forall>opts. (LoadCall ReadStream opts \<in> set (effects (call ReadStream self))) =
              (LoadCall Read opts \<in> set (effects (call Read self))))"
  proof (cases self rule: call_cases)
    case absent
    then show ?thesis
      by (cases "load (spark self) Read (options self)";
          cases "load (spark self) ReadStream (options self)")
        (simp_all add: call_absent is_EncryptCall_def)
  next
    case (raises v e)
    then show ?thesis
      by (simp add: call_encrypt_raises is_EncryptCall_def)
  next
    case (returns v c)
    then show ?thesis
      by (cases "load (spark self) Read ((options self)(eventhub_connection_string \<mapsto> c))";
          cases "load (spark self) ReadStream ((options self)(eventhub_connection_string \<mapsto> c))")
        (simp_all add: call_encrypt_returns Let_def is_EncryptCall_def)
  qed
  show ?thesis
    using c [of Read] c [of ReadStream] rest by (simp add: call_unfold)
qed

text \<open>
  C10. The encryption pre-step is applied at every call to whatever the options hold
  then. With a utility that returns \<open>enc x\<close> on every \<open>x\<close>, \<open>n\<close> calls of the read methods,
  in any mix and whether the loads return or raise, leave the \<open>n\<close>-fold encryption of the
  original connection string in the options; a \<open>read_batch\<close> followed by a \<open>read_stream\<close>
  leaves the encryption of the encrypted string.
\<close>

theorem connection_string_encrypted_once_per_call:
  assumes "options self eventhub_connection_string = Some v"
    and "\<And>x. encrypt (spark self) x = Inr (enc x)"
  shows "options (calls rs self) eventhub_connection_string = Some ((enc ^^ length rs) v) \<and>
     options (object_after (read_stream (object_after (read_batch self))))
       eventhub_connection_string = Some (enc (enc v))"
proof -
  have n: "options (calls rs self) eventhub_connection_string = Some ((enc ^^ length rs) v)"
    for rs
    using assms
  proof (induction rs arbitrary: self v)
    case Nil
    then show ?case by simp
  next
    case (Cons r rs)
    let ?s = "object_after (call r self)"
    have st: "options ?s = (options self)(eventhub_connection_string \<mapsto> enc v)"
      and sp: "spark ?s = spark self"
      using call_encrypt_returns [OF Cons.prems(1) Cons.prems(2) [of v], of r]
      by (simp_all add: Let_def split: sum.splits)
    have "options (calls rs ?s) eventhub_connection_string = Some ((enc ^^ length rs) (enc v))"
      by (rule Cons.IH) (simp_all add: st sp Cons.prems(2))
    then show ?case by (simp add: funpow_swap1)
  qed
  from n [of "[Read, ReadStream]"] show ?thesis
    using n [of rs] by (simp add: call_unfold)
qed

theorem connection_string_encrypted_once_per_call_witness:
  "options demo_source eventhub_connection_string = Some ''Endpoint=sb://demo'' \<and>
   (\<forall>x. encrypt (spark demo_source) x = Inr (''<'' @ x @ ''>'')) \<and>
   options (calls [Read, ReadStream, Read] demo_source) eventhub_connection_string =
     Some ''<<<Endpoint=sb://demo>>>'' \<and>
   options (object_after (read_stream (object_after (read_batch demo_source))))
     eventhub_connection_string = Some ''<<Endpoint=sb://demo>>''"
proof -
  have p: "options demo_source eventhub_connection_string = Some ''Endpoint=sb://demo''"
    by (simp add: demo_source_def init_def demo_options_def eventhub_connection_string_def)
  have e: "encrypt (spark demo_source) x = Inr (''<'' @ x @ ''>'')" for x
    by (simp add: demo_source_def init_def demo_session_def)
  have three: "length [Read, ReadStream, Read] = Suc (Suc (Suc 0))"
    by simp
  show ?thesis
    using connection_string_encrypted_once_per_call
      [of demo_source "''Endpoint=sb://demo''" "\<lambda>x. ''<'' @ x @ ''>''" "[Read, ReadStream, Read]",
       OF p e] p e
    unfolding three by simp
qed

section \<open>Properties of the Auto Loader source\<close>

text \<open>
  C9. The one-shot read of the Auto Loader source, which only supports streaming reads,
  raises \<open>NotImplementedError\<close>, and the string of the exception is the documented message,
  which sends the caller to \<open>read_stream\<close> with the trigger \<open>availableNow=True\<close>.
\<close>

theorem autoloader_read_batch_not_supported:
  "\<exists>e. (autoloader_read_batch self :: py_exception + 'd) = Inl e \<and>
     e = NotImplementedError (str e) \<and>
     str e = ''Auto Loader only supports streaming reads. To perform a batch read, use the read_stream method and specify Trigger on the write_stream as `availableNow=True`''"
  by (simp add: autoloader_read_batch_def str_def)

section \<open>Properties of the EdgeX transformer\<close>

text \<open>
  In the theorems below the input is a well-formed dataframe whose columns the analysis
  accepts: one column answers to the name \<open>body\<close> and none to the name \<open>col\<close>. On every
  other set of columns the transformer raises \<open>AnalysisException\<close> and there is no output.
\<close>






text \<open>
  C3, as the claim states it: for a reading with the origin 1000000000 the event time is
  the timestamp of one second after the epoch. It is false in a session whose time zone is
  not at offset zero: in the Paris session, an hour ahead of UTC, the event time of such a
  reading is the instant 3599 seconds before the epoch.
\<close>

theorem event_time_in_paris_session:
  "transform paris_runtime demo_transformer = Some (demo_output 3600000000) \<and>
   get_field (exploded_readings paris_runtime (data demo_transformer) ! 0) ''origin'' =
     Long 1000000000 \<and>
   rows (demo_output 3600000000) ! 0 ! 1 = Timestamp (- 3599000000) \<and>
   rows (demo_output 3600000000) ! 0 ! 1 \<noteq> Timestamp 1000000"
proof -
  have "get_field (exploded_readings paris_runtime (data demo_transformer) ! 0) ''origin'' =
      fst (map (\<lambda>x. (get_field x ''origin'', get_field x ''valueType''))
        (exploded_readings paris_runtime (data demo_transformer)) ! 0)"
    using demo_readings(2) [THEN arg_cong, of length] by simp
  then have "get_field (exploded_readings paris_runtime (data demo_transformer) ! 0) ''origin'' =
      Long 1000000000"
    unfolding demo_readings(2) by simp
  then show ?thesis
    using demo_run_paris by (simp add: demo_output_def)
qed

text \<open>
  C3, amended: for a reading with the origin 1000000000 the event time is the instant one
  second after the epoch less the offset of the session's time zone, which is the instant
  that this zone shows as 1970-01-01 00:00:01; it is the instant one second after the
  epoch when the session's time zone is at offset zero, as UTC is.
\<close>

theorem event_time_one_second_after_epoch:
  assumes "well_formed (data self)" and "accepts rt (columns (data self))"
    and "i < length (exploded_readings rt (data self))"
    and "get_field (exploded_readings rt (data self) ! i) ''origin'' = Long 1000000000"
  shows "\<exists>out. transform rt self = Some out \<and>
     columns out ! 1 = ''EventTime'' \<and>
     length (rows out) = length (exploded_readings rt (data self)) \<and>
     rows out ! i ! 1 = Timestamp (1000000 - zone_offset rt (timeZone rt) 1000000) \<and>
     (zone_offset rt (timeZone rt) 1000000 = 0 \<longrightarrow> rows out ! i ! 1 = Timestamp 1000000)"
proof -
  let ?rs = "concat (map (pcdm_rows rt self) (rows (data self)))"
  have len: "length ?rs = length (exploded_readings rt (data self))"
    using accepted_columnwise(1) [of rt self] by (metis length_map)
  have "?rs ! i ! 1 = map (\<lambda>r. r ! 1) ?rs ! i"
    using assms(3) len by simp
  also have "\<dots> = event_time rt (exploded_readings rt (data self) ! i)"
    using assms(3) by (simp only: accepted_columnwise(1) nth_map)
  also have "\<dots> = Timestamp (1000000 - zone_offset rt (timeZone rt) 1000000)"
    by (simp only: event_time_def assms(4) one_second to_utc_timestamp.simps)
  finally show ?thesis
    using len by (simp add: transform_accepted [OF assms(1,2)])
qed

theorem event_time_one_second_after_epoch_witness:
  "well_formed (data demo_transformer) \<and>
   accepts utc_runtime (columns (data demo_transformer)) \<and>
   transform utc_runtime demo_transformer = Some (demo_output 0) \<and>
   0 < length (exploded_readings utc_runtime (data demo_transformer)) \<and>
   get_field (exploded_readings utc_runtime (data demo_transformer) ! 0) ''origin'' =
     Long 1000000000 \<and>
   zone_offset utc_runtime (timeZone utc_runtime) 1000000 = 0 \<and>
   rows (demo_output 0) ! 0 ! 1 = Timestamp 1000000"
proof -
  have l: "0 < length (exploded_readings utc_runtime (data demo_transformer))"
    using demo_readings(1) [THEN arg_cong, of length] by simp
  then have "get_field (exploded_readings utc_runtime (data demo_transformer) ! 0) ''origin'' =
      fst (map (\<lambda>x. (get_field x ''origin'', get_field x ''valueType''))
        (exploded_readings utc_runtime (data demo_transformer)) ! 0)"
    by simp
  then have g: "get_field (exploded_readings utc_runtime (data demo_transformer) ! 0) ''origin'' =
      Long 1000000000"
    unfolding demo_readings(1) by simp
  have z: "zone_offset utc_runtime (timeZone utc_runtime) 1000000 = 0"
    by (simp add: utc_runtime_def demo_runtime_def)
  show ?thesis
    using event_time_one_second_after_epoch [OF demo_well_formed demo_accepts(1) l g]
      demo_well_formed demo_accepts(1) demo_run_utc l g z
    by simp
qed






end
